theory Spec2Isabelle
  imports Complex_Main "HOL-Library.Word"
begin

section \<open>Token cache service of the BLE tag tracker backend (backend/app.py)\<close>

text \<open>
  The development embeds the two request handlers of \<^verbatim>\<open>backend/app.py\<close> that touch the
  process-wide \<^verbatim>\<open>token_cache\<close>: \<^verbatim>\<open>get_token\<close> and \<^verbatim>\<open>health_check\<close>.
  Everything the handlers receive from outside is an explicit argument: the readings of
  \<^verbatim>\<open>datetime.now()\<close>, the outcome of \<^verbatim>\<open>requests.post\<close>, the configuration
  read at start-up. The mutable dictionary is passed in and returned, and the requests sent
  to the identity provider are returned as a list. Of the diagnostic \<^verbatim>\<open>print\<close> calls
  under \<^verbatim>\<open>DEBUG_MODE\<close> the text written is left out, but not that the call can raise: the
  lines all start with an emoji, which \<^verbatim>\<open>sys.stdout\<close> may be unable to encode.
\<close>

subsection \<open>Python values\<close>

text \<open>
  The values that \<^verbatim>\<open>response.json()\<close> produces: \<^verbatim>\<open>None\<close>, booleans, integers of any
  size, floats, strings, lists and dictionaries with string keys (in insertion order, keys
  distinct). The same type serves for the bodies handed to \<^verbatim>\<open>jsonify\<close>. A float is its
  IEEE 754 binary64 bit pattern; the arithmetic the standard library does on one is a
  parameter (\<open>pylib\<close> below).
\<close>

unbundle bit_operations_syntax

datatype pyfloat = PyFloat "64 word"

datatype json =
    JNull
  | JBool bool
  | JInt int
  | JFloat pyfloat
  | JStr string
  | JArr "json list"
  | JObj "(string \<times> json) list"

datatype exn =
    TypeError
  | KeyError
  | AttributeError
  | ValueError
  | OverflowError
  | RequestException
  | JSONDecodeError
  | UnicodeEncodeError

text \<open>
  A naive \<^verbatim>\<open>datetime\<close> is the number of microseconds since 0001-01-01T00:00:00 (the
  value of \<^verbatim>\<open>datetime.min\<close>); a \<^verbatim>\<open>timedelta\<close> is a number of microseconds.
\<close>

type_synonym datetime = int
type_synonym timedelta = int

text \<open>
  The two functions of the standard library that are taken as given: for a float \<open>x\<close>,
  the microseconds of \<^verbatim>\<open>timedelta(seconds=x)\<close> or the exception it raises; and
  \<^verbatim>\<open>datetime.isoformat\<close>.
\<close>

record pylib =
  float_timedelta :: "pyfloat \<Rightarrow> exn + timedelta"
  isoformat :: "datetime \<Rightarrow> string"

text \<open>
  \<^verbatim>\<open>bool(v)\<close>, the test an \<^verbatim>\<open>if\<close> or an \<^verbatim>\<open>and\<close> applies to a value. A float is
  false when it is \<open>0.0\<close> or \<open>-0.0\<close>: all bits but the sign are clear.
\<close>

fun float_bool :: "pyfloat \<Rightarrow> bool" where
  "float_bool (PyFloat w) = (w AND 0x7FFFFFFFFFFFFFFF \<noteq> 0)"

fun py_bool :: "json \<Rightarrow> bool" where
  "py_bool JNull = False"
| "py_bool (JBool b) = b"
| "py_bool (JInt n) = (n \<noteq> 0)"
| "py_bool (JFloat x) = float_bool x"
| "py_bool (JStr s) = (s \<noteq> [])"
| "py_bool (JArr xs) = (xs \<noteq> [])"
| "py_bool (JObj kvs) = (kvs \<noteq> [])"

text \<open>\<^verbatim>\<open>data[key]\<close> and \<^verbatim>\<open>data.get(key, default)\<close> for a string key.\<close>

fun getitem :: "json \<Rightarrow> string \<Rightarrow> exn + json" where
  "getitem (JObj kvs) key = (case map_of kvs key of None \<Rightarrow> Inl KeyError | Some v \<Rightarrow> Inr v)"
| "getitem v key = Inl TypeError"

fun dict_get :: "json \<Rightarrow> string \<Rightarrow> json \<Rightarrow> exn + json" where
  "dict_get (JObj kvs) key dflt = (case map_of kvs key of None \<Rightarrow> Inr dflt | Some v \<Rightarrow> Inr v)"
| "dict_get v key dflt = Inl AttributeError"

subsection \<open>The datetime module\<close>

definition datetime_max :: datetime where
  "datetime_max = 3652059 * 86400000000 - 1"

text \<open>
  The values a \<^verbatim>\<open>datetime\<close> can hold, from \<^verbatim>\<open>datetime.min\<close> to \<^verbatim>\<open>datetime.max\<close>.
  Every reading of the clock and every expiry the handler stores is one.
\<close>

definition is_datetime :: "int \<Rightarrow> bool" where
  "is_datetime t = (0 \<le> t \<and> t \<le> datetime_max)"

definition timedelta_max_days :: int where
  "timedelta_max_days = 999999999"

text \<open>A \<^verbatim>\<open>timedelta\<close> of \<open>us\<close> microseconds; its day count is limited.\<close>

definition new_timedelta :: "int \<Rightarrow> exn + timedelta" where
  "new_timedelta us =
     (let days = us div 86400000000
      in if - timedelta_max_days \<le> days \<and> days \<le> timedelta_max_days
         then Inr us else Inl OverflowError)"

text \<open>
  \<^verbatim>\<open>timedelta(seconds=v)\<close>: an integer (a boolean is one) is taken exactly, a float goes
  through the library, anything else is a \<^verbatim>\<open>TypeError\<close>.
\<close>

fun timedelta_seconds :: "pylib \<Rightarrow> json \<Rightarrow> exn + timedelta" where
  "timedelta_seconds lib (JInt n) = new_timedelta (n * 1000000)"
| "timedelta_seconds lib (JBool b) = new_timedelta ((if b then 1 else 0) * 1000000)"
| "timedelta_seconds lib (JFloat x) = float_timedelta lib x"
| "timedelta_seconds lib v = Inl TypeError"

definition timedelta_minutes :: "int \<Rightarrow> timedelta" where
  "timedelta_minutes m = m * 60000000"

text \<open>\<^verbatim>\<open>d + td\<close> and \<^verbatim>\<open>d - td\<close>: the result has to lie between year 1 and year 9999.\<close>

definition new_datetime :: "int \<Rightarrow> exn + datetime" where
  "new_datetime us = (if 0 \<le> us \<and> us \<le> datetime_max then Inr us else Inl OverflowError)"

definition datetime_add :: "datetime \<Rightarrow> timedelta \<Rightarrow> exn + datetime" where
  "datetime_add d td = new_datetime (d + td)"

definition datetime_sub :: "datetime \<Rightarrow> timedelta \<Rightarrow> exn + datetime" where
  "datetime_sub d td = new_datetime (d - td)"

text \<open>
  \<^verbatim>\<open>int(td.total_seconds())\<close>. \<^verbatim>\<open>total_seconds\<close> is the true division of the
  microseconds by \<open>10\<^sup>6\<close>, correctly rounded to a double (53 significant bits, ties to
  even); \<^verbatim>\<open>int\<close> then drops the fraction. For a quotient \<open>q\<close> with
  \<open>2\<^sup>e \<le> q < 2\<^sup>e\<^sup>+\<^sup>1\<close> the doubles around it are the multiples of \<open>2\<^sup>e\<^sup>-\<^sup>5\<^sup>2\<close>. A
  \<^verbatim>\<open>timedelta\<close> holds fewer than \<open>10\<^sup>9\<close> days, so \<open>q < 2\<^sup>4\<^sup>7\<close> and the shift
  \<open>53 - bit_length\<close> below is positive.
\<close>

fun bit_length :: "nat \<Rightarrow> nat" where
  "bit_length n = (if n = 0 then 0 else Suc (bit_length (n div 2)))"

declare bit_length.simps [simp del]

definition round_half_even :: "int \<Rightarrow> int \<Rightarrow> int" where
  "round_half_even a b =
     (let f = a div b; r = a mod b
      in if 2 * r < b then f
         else if b < 2 * r then f + 1
         else if even f then f else f + 1)"

definition total_seconds_int :: "timedelta \<Rightarrow> int" where
  "total_seconds_int td =
     (let a = \<bar>td\<bar>; k = a div 1000000
      in if k = 0 then 0
         else let s = 53 - bit_length (nat k)
              in sgn td * (round_half_even (a * 2 ^ s) 1000000 div 2 ^ s))"

text \<open>\<^verbatim>\<open>str(n)\<close> for an integer, as the f-string of the error message formats it.\<close>

definition digit_char :: "nat \<Rightarrow> char" where
  "digit_char d =
     (if d = 0 then CHR ''0'' else if d = 1 then CHR ''1'' else if d = 2 then CHR ''2''
      else if d = 3 then CHR ''3'' else if d = 4 then CHR ''4'' else if d = 5 then CHR ''5''
      else if d = 6 then CHR ''6'' else if d = 7 then CHR ''7'' else if d = 8 then CHR ''8''
      else CHR ''9'')"

fun str_nat :: "nat \<Rightarrow> string" where
  "str_nat n = (if n < 10 then [digit_char n] else str_nat (n div 10) @ [digit_char (n mod 10)])"

declare str_nat.simps [simp del]

definition str_int :: "int \<Rightarrow> string" where
  "str_int i = (if i < 0 then CHR ''-'' # str_nat (nat (- i)) else str_nat (nat i))"

text \<open>
  The number that a decimal numeral denotes: an optional minus sign, then one or more digits.
  It is how a reader of the error message gets the status back from the text.
\<close>

definition digit_of_char :: "char \<Rightarrow> nat option" where
  "digit_of_char ch =
     (if ch = CHR ''0'' then Some 0 else if ch = CHR ''1'' then Some 1
      else if ch = CHR ''2'' then Some 2 else if ch = CHR ''3'' then Some 3
      else if ch = CHR ''4'' then Some 4 else if ch = CHR ''5'' then Some 5
      else if ch = CHR ''6'' then Some 6 else if ch = CHR ''7'' then Some 7
      else if ch = CHR ''8'' then Some 8 else if ch = CHR ''9'' then Some 9
      else None)"

fun digits_value :: "nat \<Rightarrow> string \<Rightarrow> nat option" where
  "digits_value acc [] = Some acc"
| "digits_value acc (ch # s) =
     (case digit_of_char ch of None \<Rightarrow> None | Some d \<Rightarrow> digits_value (10 * acc + d) s)"

definition decimal_value :: "string \<Rightarrow> int option" where
  "decimal_value s =
     (case s of
        [] \<Rightarrow> None
      | ch # r \<Rightarrow>
          if ch = CHR ''-''
          then (if r = [] then None else map_option (\<lambda>n. - int n) (digits_value 0 r))
          else map_option int (digits_value 0 s))"

subsection \<open>Configuration, cache and environment\<close>

record config =
  TOKEN_URL :: string
  CLIENT_ID :: string
  CLIENT_SECRET :: string
  OAUTH_USERNAME :: string
  OAUTH_PASSWORD :: string
  SCOPE :: string
  GRANT_TYPE :: string
  RESPONSE_TYPE :: string
  DEBUG_MODE :: bool

text \<open>The module-level dictionary \<^verbatim>\<open>token_cache\<close>; \<^verbatim>\<open>None\<close> in \<^verbatim>\<open>'token'\<close> is \<open>JNull\<close>.\<close>

record token_cache =
  token :: json
  expires_at :: "datetime option"

definition token_cache_init :: token_cache where
  "token_cache_init = \<lparr>token = JNull, expires_at = None\<rparr>"

text \<open>One call of \<^verbatim>\<open>requests.post\<close>, and what comes back when it does not raise:
  \<^verbatim>\<open>response.text\<close> is \<open>resp_text\<close>, and \<open>resp_json\<close> is what \<^verbatim>\<open>response.json()\<close> returns
  or raises.\<close>

record post_request =
  url :: string
  data :: "(string \<times> string) list"
  headers :: "(string \<times> string) list"
  timeout :: int

record response =
  status_code :: int
  resp_text :: string
  resp_json :: "exn + json"

text \<open>
  What one invocation of \<^verbatim>\<open>get_token\<close> meets: whether \<^verbatim>\<open>sys.stdout\<close> accepts the
  diagnostic lines, the reading of \<^verbatim>\<open>datetime.now()\<close> at each of its three call sites
  (the validity test, the remaining lifetime of a cached token, the expiry of a fetched one),
  and what \<^verbatim>\<open>requests.post\<close> does if it is called.
\<close>

record env =
  stdout_ok :: bool
  now_check :: datetime
  now_remaining :: datetime
  now_fetched :: datetime
  post :: "exn + response"

type_synonym reply = "json \<times> int"

subsection \<open>The handlers\<close>

definition token_payload :: "config \<Rightarrow> post_request" where
  "token_payload cfg =
     \<lparr>url = TOKEN_URL cfg,
      data = [(''client_id'', CLIENT_ID cfg),
              (''client_secret'', CLIENT_SECRET cfg),
              (''username'', OAUTH_USERNAME cfg),
              (''password'', OAUTH_PASSWORD cfg),
              (''scope'', SCOPE cfg),
              (''grant_type'', GRANT_TYPE cfg),
              (''response_type'', RESPONSE_TYPE cfg)],
      headers = [(''Content-Type'', ''application/x-www-form-urlencoded'')],
      timeout = 10\<rparr>"

text \<open>
  \<^verbatim>\<open>if DEBUG_MODE: print(...)\<close>: nothing happens unless diagnostics are on, and then the
  call raises when \<^verbatim>\<open>sys.stdout\<close> does not accept the line.
\<close>

definition debug_print :: "config \<Rightarrow> env \<Rightarrow> exn + unit" where
  "debug_print cfg e =
     (if DEBUG_MODE cfg \<and> \<not> stdout_ok e then Inl UnicodeEncodeError else Inr ())"

text \<open>
  The test of lines 87 and 88: \<open>Inr (Some t)\<close> when the cached token, expiring at \<open>t\<close>,
  is served, \<open>Inr None\<close> when a new one is fetched; the subtraction of the five minutes
  can raise.
\<close>

definition cache_valid :: "env \<Rightarrow> token_cache \<Rightarrow> exn + datetime option" where
  "cache_valid e c =
     (if py_bool (token c) then
        (case expires_at c of
           None \<Rightarrow> Inr None
         | Some t \<Rightarrow>
             (case datetime_sub t (timedelta_minutes 5) of
                Inl x \<Rightarrow> Inl x
              | Inr limit \<Rightarrow> if now_check e < limit then Inr (Some t) else Inr None))
      else Inr None)"

text \<open>
  The body of the \<^verbatim>\<open>try\<close> block: the reply or the exception that leaves the block,
  the cache as the block leaves it, and the requests it sent.
\<close>

definition get_token_try ::
    "pylib \<Rightarrow> config \<Rightarrow> env \<Rightarrow> token_cache \<Rightarrow> (exn + reply) \<times> token_cache \<times> post_request list" where
  "get_token_try lib cfg e c =
     (case cache_valid e c of
        Inl x \<Rightarrow> (Inl x, c, [])
      | Inr (Some t) \<Rightarrow>
          (Inr (JObj [(''success'', JBool True),
                      (''access_token'', token c),
                      (''expires_in'', JInt (total_seconds_int (t - now_remaining e))),
                      (''cached'', JBool True)], 200), c, [])
      | Inr None \<Rightarrow>
          (case debug_print cfg e of
             Inl x \<Rightarrow> (Inl x, c, [])
           | Inr u \<Rightarrow>
          (case post e of
             Inl x \<Rightarrow> (Inl x, c, [token_payload cfg])
           | Inr r \<Rightarrow>
               if status_code r = 200 then
                 (case resp_json r of
                    Inl x \<Rightarrow> (Inl x, c, [token_payload cfg])
                  | Inr d \<Rightarrow>
                      (case getitem d ''access_token'' of
                         Inl x \<Rightarrow> (Inl x, c, [token_payload cfg])
                       | Inr tok \<Rightarrow>
                           (let c1 = c\<lparr>token := tok\<rparr> in
                            case dict_get d ''expires_in'' (JInt 3600) of
                              Inl x \<Rightarrow> (Inl x, c1, [token_payload cfg])
                            | Inr expires_in \<Rightarrow>
                                (case timedelta_seconds lib expires_in of
                                   Inl x \<Rightarrow> (Inl x, c1, [token_payload cfg])
                                 | Inr td \<Rightarrow>
                                     (case datetime_add (now_fetched e) td of
                                        Inl x \<Rightarrow> (Inl x, c1, [token_payload cfg])
                                      | Inr t \<Rightarrow>
                                          (let c2 = c1\<lparr>expires_at := Some t\<rparr> in
                                           case debug_print cfg e of
                                             Inl x \<Rightarrow> (Inl x, c2, [token_payload cfg])
                                           | Inr u \<Rightarrow>
                                               (Inr (JObj [(''success'', JBool True),
                                                           (''access_token'', tok),
                                                           (''expires_in'', expires_in),
                                                           (''cached'', JBool False)], 200),
                                                c2, [token_payload cfg])))))))
               else
                 (case debug_print cfg e of
                    Inl x \<Rightarrow> (Inl x, c, [token_payload cfg])
                  | Inr u \<Rightarrow>
                      (Inr (JObj [(''success'', JBool False),
                                  (''error'', JStr (''Token request failed: '' @
                                                     str_int (status_code r))),
                                  (''detail'', JStr (resp_text r))], status_code r),
                       c, [token_payload cfg])))))"

text \<open>
  \<^verbatim>\<open>get_token\<close>: the \<^verbatim>\<open>try\<close> block under its \<^verbatim>\<open>except Exception\<close> handler. The
  handler prints too; an exception raised there leaves the function (\<open>Inl\<close>), and Flask
  answers with its own 500 page instead of a JSON body.
\<close>

definition get_token ::
    "pylib \<Rightarrow> config \<Rightarrow> env \<Rightarrow> token_cache \<Rightarrow> (exn + reply) \<times> token_cache \<times> post_request list" where
  "get_token lib cfg e c =
     (case get_token_try lib cfg e c of
        (Inl x, c', sent) \<Rightarrow>
          (case debug_print cfg e of
             Inl y \<Rightarrow> (Inl y, c', sent)
           | Inr u \<Rightarrow>
               (Inr (JObj [(''success'', JBool False),
                           (''error'', JStr ''Internal server error'')], 500),
                c', sent))
      | (Inr rep, c', sent) \<Rightarrow> (Inr rep, c', sent))"

text \<open>\<^verbatim>\<open>health_check\<close>, with the cache it leaves.\<close>

definition health_check :: "pylib \<Rightarrow> token_cache \<Rightarrow> reply \<times> token_cache" where
  "health_check lib c =
     ((JObj [(''status'', JStr ''healthy''),
             (''token_cached'', JBool (token c \<noteq> JNull)),
             (''token_expires_at'',
                (case expires_at c of None \<Rightarrow> JNull | Some t \<Rightarrow> JStr (isoformat lib t)))],
       200), c)"

subsection \<open>Sample inputs\<close>

text \<open>
  A configuration and a library for the concrete runs below. None of the runs holds a float
  or formats a timestamp, so neither function of \<open>lib0\<close> is ever called in them.
  The instant \<open>63929347200000000\<close> used in the runs is 2026-11-04T00:00:00.
\<close>

definition lib0 :: pylib where
  "lib0 = \<lparr>float_timedelta = (\<lambda>x. Inl ValueError), isoformat = (\<lambda>t. str_int t)\<rparr>"

definition cfg0 :: config where
  "cfg0 = \<lparr>TOKEN_URL = ''https://login.mzoneweb.net/connect/token'', CLIENT_ID = ''id'',
     CLIENT_SECRET = ''secret'', OAUTH_USERNAME = ''user'', OAUTH_PASSWORD = ''pw'',
     SCOPE = ''mz6-api.all mz_username'', GRANT_TYPE = ''password'',
     RESPONSE_TYPE = ''code id_token'', DEBUG_MODE = False\<rparr>"

definition cfg_debug :: config where
  "cfg_debug = cfg0\<lparr>DEBUG_MODE := True\<rparr>"

section \<open>Properties\<close>

subsection \<open>The validity test and the diagnostics\<close>

lemma py_bool_not_None: "py_bool v \<Longrightarrow> v \<noteq> JNull"
  by (cases v) simp_all

lemma cache_valid_hit:
  assumes "py_bool (token c)" and "expires_at c = Some t" and "300000000 \<le> t"
    and "t \<le> datetime_max" and "now_check e < t - 300000000"
  shows "cache_valid e c = Inr (Some t)"
  using assms
  by (simp add: cache_valid_def datetime_sub_def new_datetime_def timedelta_minutes_def)

lemma cache_valid_Some:
  "cache_valid e c = Inr (Some t) \<Longrightarrow>
     py_bool (token c) \<and> expires_at c = Some t \<and> now_check e < t - 300000000"
  by (auto simp: cache_valid_def datetime_sub_def new_datetime_def timedelta_minutes_def
      split: if_splits option.splits sum.splits)

lemma cache_valid_miss:
  assumes "\<not> py_bool (token c) \<or> expires_at c = None \<or>
     (\<exists>t. expires_at c = Some t \<and> 300000000 \<le> t \<and> t \<le> datetime_max \<and>
          t - 300000000 \<le> now_check e)"
  shows "cache_valid e c = Inr None"
  using assms
  by (auto simp: cache_valid_def datetime_sub_def new_datetime_def timedelta_minutes_def
      split: option.splits)

lemma debug_print_ok: "(DEBUG_MODE cfg \<longrightarrow> stdout_ok e) \<Longrightarrow> debug_print cfg e = Inr ()"
  by (auto simp: debug_print_def)

lemma debug_print_cases:
  "debug_print cfg e = Inr () \<or> debug_print cfg e = Inl UnicodeEncodeError"
  by (simp add: debug_print_def)

lemma get_token_try_hit:
  "cache_valid e c = Inr (Some t) \<Longrightarrow>
   get_token_try lib cfg e c =
     (Inr (JObj [(''success'', JBool True),
                 (''access_token'', token c),
                 (''expires_in'', JInt (total_seconds_int (t - now_remaining e))),
                 (''cached'', JBool True)], 200), c, [])"
  by (simp add: get_token_try_def)

lemma get_token_try_sent:
  "snd (snd (get_token_try lib cfg e c)) =
     (if cache_valid e c = Inr None \<and> debug_print cfg e = Inr ()
      then [token_payload cfg] else [])"
  using debug_print_cases [of cfg e]
  by (auto simp: get_token_try_def Let_def split: sum.splits option.splits)

lemma get_token_sent:
  "snd (snd (get_token lib cfg e c)) = snd (snd (get_token_try lib cfg e c))"
  by (simp add: get_token_def split: prod.splits sum.splits)

lemma get_token_sent_iff:
  "snd (snd (get_token lib cfg e c)) \<noteq> [] \<longleftrightarrow>
     cache_valid e c = Inr None \<and> debug_print cfg e = Inr ()"
  by (simp add: get_token_sent get_token_try_sent)

subsection \<open>Whole seconds of a time span\<close>

text \<open>
  Below \<open>2\<^sup>3\<^sup>4\<close> seconds (some 544 years) the rounding of \<^verbatim>\<open>total_seconds()\<close> to a
  double never reaches the next whole second, so \<^verbatim>\<open>int\<close> of it is the floor of the exact
  quotient.
\<close>

lemma bit_length_le: "n < 2 ^ m \<Longrightarrow> bit_length n \<le> m"
proof (induction m arbitrary: n)
  case 0
  then show ?case by (simp add: bit_length.simps)
next
  case (Suc m)
  show ?case
  proof (cases "n = 0")
    case True
    then show ?thesis by (simp add: bit_length.simps)
  next
    case False
    from Suc.prems have "n div 2 < 2 ^ m" by simp
    then have "bit_length (n div 2) \<le> m" by (rule Suc.IH)
    with False show ?thesis by (subst bit_length.simps) simp
  qed
qed

lemma round_half_even_shift:
  fixes a P :: int
  assumes a: "0 \<le> a" and P: "1000000 < 2 * P"
  shows "round_half_even (a * P) 1000000 div P = a div 1000000"
proof -
  define k where "k = a div 1000000"
  define f where "f = a mod 1000000"
  define g where "g = (f * P) div 1000000"
  define r where "r = (f * P) mod 1000000"
  have Ppos: "0 < P" using P by simp
  have f: "0 \<le> f" "f \<le> 999999" by (simp_all add: f_def)
  have r: "0 \<le> r" "r < 1000000" by (simp_all add: r_def)
  have a_eq: "a = k * 1000000 + f" by (simp add: k_def f_def)
  have fP: "f * P = g * 1000000 + r" by (simp add: g_def r_def)
  have fP_le: "f * P \<le> 999999 * P" using f Ppos by (simp add: mult_right_mono)
  have fP_ge: "0 \<le> f * P" using f Ppos by simp
  have g0: "0 \<le> g" using fP_ge by (simp add: g_def pos_imp_zdiv_nonneg_iff)
  have aP: "a * P = (k * P + g) * 1000000 + r"
    using fP by (simp add: a_eq algebra_simps)
  have dm: "(x * 1000000 + r) div 1000000 = x \<and> (x * 1000000 + r) mod 1000000 = r" for x
    using r by (simp add: div_pos_pos_trivial mod_pos_pos_trivial)
  have d: "(a * P) div 1000000 = k * P + g"
    unfolding aP using dm by blast
  have m: "(a * P) mod 1000000 = r"
    unfolding aP using dm by blast
  have "\<exists>m. round_half_even (a * P) 1000000 = k * P + m \<and> 0 \<le> m \<and> m < P"
  proof (cases "2 * r < 1000000")
    case True
    then have "round_half_even (a * P) 1000000 = k * P + g"
      by (simp add: round_half_even_def d m)
    moreover have "g < P" using fP fP_le r Ppos by linarith
    ultimately show ?thesis using g0 by blast
  next
    case False
    then have "round_half_even (a * P) 1000000 = k * P + g \<or>
        round_half_even (a * P) 1000000 = k * P + (g + 1)"
      by (simp add: round_half_even_def d m Let_def)
    moreover have "g + 1 < P" using fP fP_le r False P by linarith
    moreover have "0 \<le> g + 1" "g < P" using g0 \<open>g + 1 < P\<close> by simp_all
    ultimately show ?thesis using g0 by blast
  qed
  then obtain m where rm: "round_half_even (a * P) 1000000 = k * P + m"
      "0 \<le> m" "m < P" by blast
  have "(k * P + m) div P = k" using rm(2,3) Ppos
    by (simp add: div_pos_pos_trivial)
  then show ?thesis by (simp add: rm(1) k_def)
qed

lemma total_seconds_int_floor:
  assumes "0 \<le> td" and "td < 2 ^ 34 * 1000000"
  shows "total_seconds_int td = td div 1000000"
proof (cases "td div 1000000 = 0")
  case True
  then show ?thesis using assms by (simp add: total_seconds_int_def)
next
  case False
  define k where "k = nat (td div 1000000)"
  have "td div 1000000 < 2 ^ 34" using assms by simp
  then have "k < 2 ^ 34" using assms by (simp add: k_def nat_less_iff)
  then have "bit_length k \<le> 34" by (rule bit_length_le)
  then have "53 - bit_length k = 19 + (34 - bit_length k)" by simp
  then obtain j where j: "53 - bit_length k = 19 + j" ..
  have "(1000000::int) < 2 * 2 ^ (19 + j)"
  proof -
    have "(2::int) ^ 19 \<le> 2 ^ (19 + j)" by (intro power_increasing) simp_all
    moreover have "(2::int) ^ 19 = 524288" by simp
    ultimately have "(524288::int) \<le> 2 ^ (19 + j)" by (simp only:)
    then show ?thesis by linarith
  qed
  then have "round_half_even (td * 2 ^ (19 + j)) 1000000 div 2 ^ (19 + j) = td div 1000000"
    using assms(1) by (intro round_half_even_shift)
  moreover have "sgn td = 1" using False assms(1) by (cases "td = 0") simp_all
  ultimately show ?thesis using False assms(1) j
    by (simp add: total_seconds_int_def k_def Let_def)
qed

subsection \<open>The status in the error message\<close>

text \<open>
  \<open>str_int\<close> writes the decimal numeral of its argument: the numeral reads back as the
  number, it has no leading zero, and for an HTTP status (100 to 999) it has three digits.
\<close>

lemma digit_of_digit_char: "d < 10 \<Longrightarrow> digit_of_char (digit_char d) = Some d"
  by (auto simp: digit_of_char_def digit_char_def)


lemma digits_value_append:
  "digits_value acc (xs @ ys) =
     (case digits_value acc xs of None \<Rightarrow> None | Some a \<Rightarrow> digits_value a ys)"
  by (induction xs arbitrary: acc) (auto split: option.splits)

lemma str_nat_nonempty: "str_nat n \<noteq> []"
  by (subst str_nat.simps) simp

lemma digits_value_str_nat:
  "digits_value acc (str_nat n) = Some (acc * 10 ^ length (str_nat n) + n)"
proof (induction n arbitrary: acc rule: str_nat.induct)
  case (1 n)
  show ?case
  proof (cases "n < 10")
    case True
    then show ?thesis
      by (subst (1 2) str_nat.simps) (simp add: digit_of_digit_char)
  next
    case False
    have d: "digit_of_char (digit_char (n mod 10)) = Some (n mod 10)"
      by (intro digit_of_digit_char) simp
    have "digits_value acc (str_nat (n div 10) @ [digit_char (n mod 10)]) =
        Some (10 * (acc * 10 ^ length (str_nat (n div 10)) + n div 10) + n mod 10)"
      using False by (simp add: digits_value_append "1.IH" d)
    also have "10 * (acc * 10 ^ length (str_nat (n div 10)) + n div 10) + n mod 10 =
        acc * 10 ^ length (str_nat (n div 10) @ [digit_char (n mod 10)]) + n"
      by (simp add: algebra_simps)
    finally show ?thesis
      using False by (subst (1 2) str_nat.simps) simp
  qed
qed

lemma str_nat_hd_digit: "digit_of_char (hd (str_nat n)) \<noteq> None"
proof -
  obtain ch r where s: "str_nat n = ch # r"
    using str_nat_nonempty [of n] by (cases "str_nat n") auto
  have "digits_value 0 (ch # r) \<noteq> None"
    using digits_value_str_nat [of 0 n] by (simp add: s)
  then show ?thesis
    by (auto simp: s split: option.splits)
qed

lemma decimal_value_str_int: "decimal_value (str_int i) = Some i"
proof (cases "i < 0")
  case True
  then show ?thesis
    by (simp add: decimal_value_def str_int_def str_nat_nonempty digits_value_str_nat)
next
  case False
  obtain ch r where s: "str_nat (nat i) = ch # r"
    using str_nat_nonempty [of "nat i"] by (cases "str_nat (nat i)") auto
  have "digit_of_char ch \<noteq> None"
    using str_nat_hd_digit [of "nat i"] by (simp add: s)
  then have "ch \<noteq> CHR ''-''"
    by (auto simp: digit_of_char_def)
  moreover have "digits_value 0 (ch # r) = Some (nat i)"
    using digits_value_str_nat [of 0 "nat i"] by (simp add: s)
  ultimately show ?thesis
    using False by (simp add: decimal_value_def str_int_def s)
qed

lemma str_int_inj:
  assumes "str_int a = str_int b"
  shows "a = b"
proof -
  have "Some a = decimal_value (str_int a)" by (simp only: decimal_value_str_int)
  also have "\<dots> = decimal_value (str_int b)" by (simp only: assms)
  also have "\<dots> = Some b" by (simp only: decimal_value_str_int)
  finally show ?thesis by simp
qed




subsection \<open>Serving the cached token\<close>

text \<open>
  C1, as amended. When the cached token is one that Python treats as true (for a string: not
  empty), its expiry is the \<^verbatim>\<open>datetime\<close> \<open>t\<close> and the clock read by the validity test
  is more than five minutes before \<open>t\<close>, \<^verbatim>\<open>get_token\<close> answers 200 with
  \<^verbatim>\<open>success: true\<close>, the cached token and \<^verbatim>\<open>cached: true\<close>, sends no request and
  leaves the cache as it was.
\<close>

theorem get_token_cache_hit:
  assumes "py_bool (token c)" and "expires_at c = Some t" and "is_datetime t"
    and "is_datetime (now_check e)" and "now_check e < t - 300000000"
  shows "get_token lib cfg e c =
     (Inr (JObj [(''success'', JBool True),
             (''access_token'', token c),
             (''expires_in'', JInt (total_seconds_int (t - now_remaining e))),
             (''cached'', JBool True)], 200), c, [])"
proof -
  have "300000000 \<le> t" using assms(4,5) by (simp add: is_datetime_def)
  then have "cache_valid e c = Inr (Some t)"
    using assms by (intro cache_valid_hit) (simp_all add: is_datetime_def)
  then show ?thesis by (simp add: get_token_def get_token_try_hit)
qed

text \<open>The theorem at a token cached at midnight for an hour, asked for a moment later.\<close>

theorem get_token_cache_hit_witness:
  "py_bool (JStr ''abc'') \<and> is_datetime 63929350800000000 \<and> is_datetime 63929347200000000 \<and>
   get_token lib0 cfg0
     \<lparr>stdout_ok = True, now_check = 63929347200000000, now_remaining = 63929347200000001,
      now_fetched = 63929347200000002, post = Inl RequestException\<rparr>
     \<lparr>token = JStr ''abc'', expires_at = Some 63929350800000000\<rparr> =
     (Inr (JObj [(''success'', JBool True),
             (''access_token'', JStr ''abc''),
             (''expires_in'', JInt (total_seconds_int (63929350800000000 - 63929347200000001))),
             (''cached'', JBool True)], 200),
      \<lparr>token = JStr ''abc'', expires_at = Some 63929350800000000\<rparr>, [])"
  using get_token_cache_hit [of "\<lparr>token = JStr ''abc'', expires_at = Some 63929350800000000\<rparr>"
      63929350800000000
      "\<lparr>stdout_ok = True, now_check = 63929347200000000, now_remaining = 63929347200000001,
        now_fetched = 63929347200000002, post = Inl RequestException\<rparr>" lib0 cfg0]
  by (simp add: is_datetime_def datetime_max_def)

text \<open>
  C1 as stated fails for a cached token that is not \<^verbatim>\<open>None\<close> but false in Python. The
  empty string is cached (\<^verbatim>\<open>health_check\<close> would report \<^verbatim>\<open>token_cached: true\<close>) with
  an expiry one hour ahead, and \<^verbatim>\<open>get_token\<close> still posts to the provider, answers
  \<^verbatim>\<open>cached: false\<close> and overwrites the cache.
\<close>

theorem get_token_empty_token_counterexample:
  "token \<lparr>token = JStr '''', expires_at = Some 63929350800000000\<rparr> \<noteq> JNull \<and>
   (63929347200000000 :: int) < 63929350800000000 - 300000000 \<and>
   get_token lib0 cfg0
     \<lparr>stdout_ok = True, now_check = 63929347200000000, now_remaining = 63929347200000000,
      now_fetched = 63929347205000000,
      post = Inr \<lparr>status_code = 200, resp_text = ''{\"access_token\": \"abc\"}'',
                  resp_json = Inr (JObj [(''access_token'', JStr ''abc'')])\<rparr>\<rparr>
     \<lparr>token = JStr '''', expires_at = Some 63929350800000000\<rparr> =
     (Inr (JObj [(''success'', JBool True),
             (''access_token'', JStr ''abc''),
             (''expires_in'', JInt 3600),
             (''cached'', JBool False)], 200),
      \<lparr>token = JStr ''abc'', expires_at = Some 63929350805000000\<rparr>,
      [token_payload cfg0])"
  by (simp add: get_token_def get_token_try_def debug_print_def cache_valid_def new_timedelta_def
      timedelta_max_days_def datetime_add_def new_datetime_def datetime_max_def)

text \<open>
  C6, as amended. On a cache hit the \<^verbatim>\<open>expires_in\<close> of the answer is the remaining
  lifetime \<open>t - now\<close> in whole seconds rounded down, not up: \<^verbatim>\<open>int\<close> drops the fraction
  of \<^verbatim>\<open>total_seconds()\<close>. Here \<open>now\<close> is the clock as line 92 reads it, not after \<open>t\<close>
  and less than \<open>2\<^sup>3\<^sup>4\<close> seconds before it.
\<close>

theorem get_token_cached_expires_in:
  assumes "py_bool (token c)" and "expires_at c = Some t" and "is_datetime t"
    and "is_datetime (now_check e)" and "now_check e < t - 300000000"
    and "now_remaining e \<le> t" and "t - now_remaining e < 2 ^ 34 * 1000000"
  shows "fst (get_token lib cfg e c) =
     Inr (JObj [(''success'', JBool True),
            (''access_token'', token c),
            (''expires_in'', JInt ((t - now_remaining e) div 1000000)),
            (''cached'', JBool True)], 200)"
proof -
  have "300000000 \<le> t" using assms(4,5) by (simp add: is_datetime_def)
  then have "cache_valid e c = Inr (Some t)"
    using assms by (intro cache_valid_hit) (simp_all add: is_datetime_def)
  moreover have "total_seconds_int (t - now_remaining e) = (t - now_remaining e) div 1000000"
    using assms(6,7) by (intro total_seconds_int_floor) simp_all
  ultimately show ?thesis by (simp add: get_token_def get_token_try_hit)
qed

text \<open>The theorem at a token with 1100.5 seconds left: the answer says 1100.\<close>

theorem get_token_cached_expires_in_witness:
  "py_bool (JStr ''abc123'') \<and> is_datetime 63929348400000000 \<and>
   is_datetime 63929347299500000 \<and>
   fst (get_token lib0 cfg0
     \<lparr>stdout_ok = True, now_check = 63929347299500000, now_remaining = 63929347299500000,
      now_fetched = 63929347299500000, post = Inl RequestException\<rparr>
     \<lparr>token = JStr ''abc123'', expires_at = Some 63929348400000000\<rparr>) =
     Inr (JObj [(''success'', JBool True),
            (''access_token'', JStr ''abc123''),
            (''expires_in'', JInt 1100),
            (''cached'', JBool True)], 200)"
  using get_token_cached_expires_in [of
      "\<lparr>token = JStr ''abc123'', expires_at = Some 63929348400000000\<rparr>"
      63929348400000000
      "\<lparr>stdout_ok = True, now_check = 63929347299500000, now_remaining = 63929347299500000,
        now_fetched = 63929347299500000, post = Inl RequestException\<rparr>" lib0 cfg0]
  by (simp add: is_datetime_def datetime_max_def)

text \<open>
  C6 as stated fails whenever the remaining lifetime is not a whole number of seconds. With
  1100.5 seconds left the answer carries 1100, and the ceiling is 1101.
\<close>

theorem get_token_expires_in_ceil_counterexample:
  "fst (get_token lib0 cfg0
     \<lparr>stdout_ok = True, now_check = 63929347299500000, now_remaining = 63929347299500000,
      now_fetched = 63929347299500000, post = Inl RequestException\<rparr>
     \<lparr>token = JStr ''abc123'', expires_at = Some 63929348400000000\<rparr>) =
     Inr (JObj [(''success'', JBool True),
            (''access_token'', JStr ''abc123''),
            (''expires_in'', JInt 1100),
            (''cached'', JBool True)], 200) \<and>
   \<lceil>real_of_int (63929348400000000 - 63929347299500000) / 1000000\<rceil> = 1101"
  by (simp add: get_token_def get_token_try_def debug_print_def cache_valid_def datetime_sub_def
      new_datetime_def datetime_max_def timedelta_minutes_def total_seconds_int_def
      round_half_even_def bit_length.simps)

subsection \<open>Fetching a new token\<close>

lemma timedelta_seconds_int:
  assumes "is_datetime d" and "is_datetime (d + n * 1000000)"
  shows "timedelta_seconds lib (JInt n) = Inr (n * 1000000)"
proof -
  have "- 315537897600000000 < n * 1000000" "n * 1000000 < 315537897600000000"
    using assms by (simp_all add: is_datetime_def datetime_max_def)
  then have "- 999999999 \<le> n * 1000000 div 86400000000"
      "n * 1000000 div 86400000000 \<le> 999999999"
    by linarith+
  then show ?thesis
    by (simp add: new_timedelta_def timedelta_max_days_def)
qed

text \<open>
  C2, as amended. The cache is absent, or stale with an expiry from which five minutes can
  be subtracted; with diagnostics on, \<^verbatim>\<open>sys.stdout\<close> accepts them; the provider answers
  200 with a JSON object that holds \<^verbatim>\<open>access_token\<close>; its \<^verbatim>\<open>expires_in\<close> (3600 when
  missing) is a value that \<^verbatim>\<open>timedelta(seconds=...)\<close> accepts, an integer, a boolean or
  a float, and the clock read after the response plus that span is still a
  \<^verbatim>\<open>datetime\<close>. Then the cache is overwritten with the new token and that expiry, one
  request has been sent, and the answer is 200 with \<^verbatim>\<open>success: true\<close>, the new token,
  the provider's \<^verbatim>\<open>expires_in\<close> and \<^verbatim>\<open>cached: false\<close>.
\<close>

theorem get_token_fetch_success:
  assumes miss: "token c = JNull \<or> expires_at c = None \<or>
      (\<exists>t. expires_at c = Some t \<and> is_datetime t \<and> 300000000 \<le> t \<and>
           t - 300000000 \<le> now_check e)"
    and dbg: "DEBUG_MODE cfg \<longrightarrow> stdout_ok e"
    and resp: "post e = Inr r" "status_code r = 200" "resp_json r = Inr (JObj kvs)"
    and tok: "map_of kvs ''access_token'' = Some tok"
    and exp: "expires_in = (case map_of kvs ''expires_in'' of None \<Rightarrow> JInt 3600 | Some v \<Rightarrow> v)"
    and td: "timedelta_seconds lib expires_in = Inr td"
    and rng: "is_datetime (now_fetched e + td)"
  shows "get_token lib cfg e c =
     (Inr (JObj [(''success'', JBool True),
             (''access_token'', tok),
             (''expires_in'', expires_in),
             (''cached'', JBool False)], 200),
      \<lparr>token = tok, expires_at = Some (now_fetched e + td)\<rparr>,
      [token_payload cfg])"
proof -
  have cv: "cache_valid e c = Inr None"
    using miss by (intro cache_valid_miss) (auto simp: is_datetime_def)
  have dp: "debug_print cfg e = Inr ()"
    using dbg by (rule debug_print_ok)
  have dg: "dict_get (JObj kvs) ''expires_in'' (JInt 3600) = Inr expires_in"
    using exp by (auto split: option.splits)
  have da: "datetime_add (now_fetched e) td = Inr (now_fetched e + td)"
    using rng by (simp add: datetime_add_def new_datetime_def is_datetime_def)
  show ?thesis
    by (simp add: get_token_def get_token_try_def cv dp resp tok dg td da Let_def
        del: dict_get.simps timedelta_seconds.simps)
qed

text \<open>
  The theorem at the scenario of the specification, the first call of the process with the
  provider answering token \<^verbatim>\<open>abc123\<close> for 1200 seconds; and at a stale entry refreshed
  with diagnostics on and \<^verbatim>\<open>"expires_in": true\<close>, which \<^verbatim>\<open>timedelta\<close> takes as one
  second.
\<close>

theorem get_token_fetch_success_witness:
  "get_token lib0 cfg0
     \<lparr>stdout_ok = True, now_check = 63929347199000000, now_remaining = 63929347199000000,
      now_fetched = 63929347200000000,
      post = Inr \<lparr>status_code = 200,
                  resp_text = ''{\"access_token\": \"abc123\", \"expires_in\": 1200}'',
                  resp_json = Inr (JObj [(''access_token'', JStr ''abc123''),
                                         (''expires_in'', JInt 1200)])\<rparr>\<rparr>
     token_cache_init =
     (Inr (JObj [(''success'', JBool True),
             (''access_token'', JStr ''abc123''),
             (''expires_in'', JInt 1200),
             (''cached'', JBool False)], 200),
      \<lparr>token = JStr ''abc123'', expires_at = Some 63929348400000000\<rparr>,
      [token_payload cfg0]) \<and>
   get_token lib0 cfg_debug
     \<lparr>stdout_ok = True, now_check = 63929348300000000, now_remaining = 63929348300000000,
      now_fetched = 63929348301000000,
      post = Inr \<lparr>status_code = 200,
                  resp_text = ''{\"access_token\": \"new\", \"expires_in\": true}'',
                  resp_json = Inr (JObj [(''access_token'', JStr ''new''),
                                         (''expires_in'', JBool True)])\<rparr>\<rparr>
     \<lparr>token = JStr ''abc123'', expires_at = Some 63929348400000000\<rparr> =
     (Inr (JObj [(''success'', JBool True),
             (''access_token'', JStr ''new''),
             (''expires_in'', JBool True),
             (''cached'', JBool False)], 200),
      \<lparr>token = JStr ''new'', expires_at = Some 63929348302000000\<rparr>,
      [token_payload cfg_debug])"
proof -
  have td1: "timedelta_seconds lib0 (JInt 1200) = Inr 1200000000"
    using timedelta_seconds_int [of 63929347200000000 1200 lib0]
    by (simp add: is_datetime_def datetime_max_def)
  have td2: "timedelta_seconds lib0 (JBool True) = Inr 1000000"
    by (simp add: new_timedelta_def timedelta_max_days_def)
  have a: "get_token lib0 cfg0
     \<lparr>stdout_ok = True, now_check = 63929347199000000, now_remaining = 63929347199000000,
      now_fetched = 63929347200000000,
      post = Inr \<lparr>status_code = 200,
                  resp_text = ''{\"access_token\": \"abc123\", \"expires_in\": 1200}'',
                  resp_json = Inr (JObj [(''access_token'', JStr ''abc123''),
                                         (''expires_in'', JInt 1200)])\<rparr>\<rparr>
     token_cache_init =
     (Inr (JObj [(''success'', JBool True),
             (''access_token'', JStr ''abc123''),
             (''expires_in'', JInt 1200),
             (''cached'', JBool False)], 200),
      \<lparr>token = JStr ''abc123'', expires_at = Some 63929348400000000\<rparr>,
      [token_payload cfg0])"
    using get_token_fetch_success [where c = token_cache_init and cfg = cfg0 and lib = lib0
        and tok = "JStr ''abc123''" and expires_in = "JInt 1200" and td = 1200000000
        and kvs = "[(''access_token'', JStr ''abc123''), (''expires_in'', JInt 1200)]"
        and e = "\<lparr>stdout_ok = True, now_check = 63929347199000000,
          now_remaining = 63929347199000000, now_fetched = 63929347200000000,
          post = Inr \<lparr>status_code = 200,
                  resp_text = ''{\"access_token\": \"abc123\", \"expires_in\": 1200}'',
                  resp_json = Inr (JObj [(''access_token'', JStr ''abc123''),
                                         (''expires_in'', JInt 1200)])\<rparr>\<rparr>"
        and r = "\<lparr>status_code = 200,
                  resp_text = ''{\"access_token\": \"abc123\", \"expires_in\": 1200}'',
                  resp_json = Inr (JObj [(''access_token'', JStr ''abc123''),
                                         (''expires_in'', JInt 1200)])\<rparr>"] td1
    by (simp add: is_datetime_def datetime_max_def token_cache_init_def
        del: timedelta_seconds.simps)
  have b: "get_token lib0 cfg_debug
     \<lparr>stdout_ok = True, now_check = 63929348300000000, now_remaining = 63929348300000000,
      now_fetched = 63929348301000000,
      post = Inr \<lparr>status_code = 200,
                  resp_text = ''{\"access_token\": \"new\", \"expires_in\": true}'',
                  resp_json = Inr (JObj [(''access_token'', JStr ''new''),
                                         (''expires_in'', JBool True)])\<rparr>\<rparr>
     \<lparr>token = JStr ''abc123'', expires_at = Some 63929348400000000\<rparr> =
     (Inr (JObj [(''success'', JBool True),
             (''access_token'', JStr ''new''),
             (''expires_in'', JBool True),
             (''cached'', JBool False)], 200),
      \<lparr>token = JStr ''new'', expires_at = Some 63929348302000000\<rparr>,
      [token_payload cfg_debug])"
    using get_token_fetch_success [where cfg = cfg_debug and lib = lib0
        and c = "\<lparr>token = JStr ''abc123'', expires_at = Some 63929348400000000\<rparr>"
        and tok = "JStr ''new''" and expires_in = "JBool True" and td = 1000000
        and kvs = "[(''access_token'', JStr ''new''), (''expires_in'', JBool True)]"
        and e = "\<lparr>stdout_ok = True, now_check = 63929348300000000,
          now_remaining = 63929348300000000, now_fetched = 63929348301000000,
          post = Inr \<lparr>status_code = 200,
                  resp_text = ''{\"access_token\": \"new\", \"expires_in\": true}'',
                  resp_json = Inr (JObj [(''access_token'', JStr ''new''),
                                         (''expires_in'', JBool True)])\<rparr>\<rparr>"
        and r = "\<lparr>status_code = 200,
                  resp_text = ''{\"access_token\": \"new\", \"expires_in\": true}'',
                  resp_json = Inr (JObj [(''access_token'', JStr ''new''),
                                         (''expires_in'', JBool True)])\<rparr>"] td2
    by (simp add: is_datetime_def datetime_max_def del: timedelta_seconds.simps)
  from a b show ?thesis by (rule conjI)
qed

text \<open>
  C2 as stated fails when \<^verbatim>\<open>expires_in\<close> is not a number, and when it is an integer
  too large for a \<^verbatim>\<open>timedelta\<close>. The provider answers the first call of the process
  with 200 and \<^verbatim>\<open>{"access_token": "abc", "expires_in": "3600"}\<close>, or a call that meets
  a stale entry with 200 and \<^verbatim>\<open>{"access_token": "abc", "expires_in": 9223372036854775807}\<close>:
  \<^verbatim>\<open>timedelta(seconds=expires_in)\<close> raises and the answer is the generic 500.
\<close>

theorem get_token_bad_expiry_counterexample:
  "fst (get_token lib0 cfg0
     \<lparr>stdout_ok = True, now_check = 63929347200000000, now_remaining = 63929347200000000,
      now_fetched = 63929347200000000,
      post = Inr \<lparr>status_code = 200,
                  resp_text = ''{\"access_token\": \"abc\", \"expires_in\": \"3600\"}'',
                  resp_json = Inr (JObj [(''access_token'', JStr ''abc''),
                                         (''expires_in'', JStr ''3600'')])\<rparr>\<rparr>
     token_cache_init) =
     Inr (JObj [(''success'', JBool False), (''error'', JStr ''Internal server error'')], 500) \<and>
   (63929348400000000 :: int) - 300000000 \<le> 63929348300000000 \<and>
   fst (get_token lib0 cfg0
     \<lparr>stdout_ok = True, now_check = 63929348300000000, now_remaining = 63929348300000000,
      now_fetched = 63929348300000000,
      post = Inr \<lparr>status_code = 200,
                  resp_text = ''{\"access_token\": \"abc\", \"expires_in\": 9223372036854775807}'',
                  resp_json = Inr (JObj [(''access_token'', JStr ''abc''),
                                         (''expires_in'', JInt 9223372036854775807)])\<rparr>\<rparr>
     \<lparr>token = JStr ''old'', expires_at = Some 63929348400000000\<rparr>) =
     Inr (JObj [(''success'', JBool False), (''error'', JStr ''Internal server error'')], 500)"
  by (simp add: get_token_def get_token_try_def debug_print_def cache_valid_def token_cache_init_def
      new_timedelta_def timedelta_max_days_def datetime_sub_def new_datetime_def
      datetime_max_def timedelta_minutes_def)

subsection \<open>What a cached answer implies\<close>

text \<open>
  C3. Whatever the state, the clock and the provider, an answer of \<^verbatim>\<open>get_token\<close> that
  carries \<^verbatim>\<open>cached: true\<close> comes from a cache that holds a token (not \<^verbatim>\<open>None\<close>) and an
  expiry \<open>t\<close> with the clock read by the validity test more than five minutes before \<open>t\<close>.
\<close>

theorem get_token_cached_only_if_valid:
  assumes "fst (get_token lib cfg e c) = Inr (JObj kvs, st)"
    and "map_of kvs ''cached'' = Some (JBool True)"
  shows "token c \<noteq> JNull \<and> (\<exists>t. expires_at c = Some t \<and> now_check e < t - 300000000)"
proof (cases "cache_valid e c")
  case (Inl x)
  then have "fst (get_token lib cfg e c) = Inl UnicodeEncodeError \<or>
      fst (get_token lib cfg e c) =
        Inr (JObj [(''success'', JBool False), (''error'', JStr ''Internal server error'')], 500)"
    using debug_print_cases [of cfg e] by (auto simp: get_token_def get_token_try_def)
  with assms show ?thesis by auto
next
  case (Inr v)
  show ?thesis
  proof (cases v)
    case (Some t)
    with Inr have "py_bool (token c) \<and> expires_at c = Some t \<and> now_check e < t - 300000000"
      by (intro cache_valid_Some) simp
    then show ?thesis by (auto dest: py_bool_not_None)
  next
    case None
    with Inr assms show ?thesis
      by (auto simp: get_token_def get_token_try_def Let_def
          split: sum.splits if_splits)
  qed
qed

text \<open>The theorem at the second call of the scenario, 100 seconds after the fetch.\<close>

theorem get_token_cached_only_if_valid_witness:
  "fst (get_token lib0 cfg0
     \<lparr>stdout_ok = True, now_check = 63929347300000000, now_remaining = 63929347300000000,
      now_fetched = 63929347300000000, post = Inl RequestException\<rparr>
     \<lparr>token = JStr ''abc123'', expires_at = Some 63929348400000000\<rparr>) =
     Inr (JObj [(''success'', JBool True),
            (''access_token'', JStr ''abc123''),
            (''expires_in'', JInt 1100),
            (''cached'', JBool True)], 200) \<and>
   token \<lparr>token = JStr ''abc123'', expires_at = Some 63929348400000000\<rparr> \<noteq> JNull \<and>
   (\<exists>t. expires_at \<lparr>token = JStr ''abc123'', expires_at = Some 63929348400000000\<rparr> = Some t \<and>
        now_check \<lparr>stdout_ok = True, now_check = 63929347300000000, now_remaining = 63929347300000000,
          now_fetched = 63929347300000000, post = Inl RequestException\<rparr> < t - 300000000)"
proof -
  have run: "fst (get_token lib0 cfg0
     \<lparr>stdout_ok = True, now_check = 63929347300000000, now_remaining = 63929347300000000,
      now_fetched = 63929347300000000, post = Inl RequestException\<rparr>
     \<lparr>token = JStr ''abc123'', expires_at = Some 63929348400000000\<rparr>) =
     Inr (JObj [(''success'', JBool True),
            (''access_token'', JStr ''abc123''),
            (''expires_in'', JInt 1100),
            (''cached'', JBool True)], 200)"
    by (simp add: get_token_def get_token_try_def debug_print_def cache_valid_def datetime_sub_def
        new_datetime_def datetime_max_def timedelta_minutes_def total_seconds_int_def
        round_half_even_def bit_length.simps)
  have "map_of [(''success'', JBool True), (''access_token'', JStr ''abc123''),
      (''expires_in'', JInt 1100), (''cached'', JBool True)] ''cached'' = Some (JBool True)"
    by simp
  from get_token_cached_only_if_valid [OF run this] run show ?thesis by blast
qed

subsection \<open>Failures\<close>



text \<open>
  C5. When \<^verbatim>\<open>get_token\<close> has sent its request and \<^verbatim>\<open>requests.post\<close> raises (timeout,
  connection error), or the provider answers 200 with a body that \<^verbatim>\<open>response.json()\<close>
  cannot parse, the cache is left as it was and the answer is status 500 with exactly
  \<^verbatim>\<open>success: false\<close> and \<^verbatim>\<open>error: "Internal server error"\<close>: nothing of the exception \<open>x\<close>
  reaches the caller.
\<close>

theorem get_token_transport_failure:
  assumes "post e = Inl x \<or>
      (\<exists>r. post e = Inr r \<and> status_code r = 200 \<and> resp_json r = Inl x)"
    and "snd (snd (get_token lib cfg e c)) \<noteq> []"
  shows "get_token lib cfg e c =
     (Inr (JObj [(''success'', JBool False), (''error'', JStr ''Internal server error'')], 500),
      c, [token_payload cfg])"
proof -
  have "cache_valid e c = Inr None \<and> debug_print cfg e = Inr ()"
    using assms(2) by (simp add: get_token_sent_iff)
  then show ?thesis
    using assms(1) by (auto simp: get_token_def get_token_try_def)
qed

text \<open>
  The theorem at a timeout on the first call of the process, and at a 200 whose body is not
  JSON meeting a stale entry.
\<close>

theorem get_token_transport_failure_witness:
  "get_token lib0 cfg0
     \<lparr>stdout_ok = True, now_check = 63929347200000000, now_remaining = 63929347200000000,
      now_fetched = 63929347210000000, post = Inl RequestException\<rparr>
     token_cache_init =
     (Inr (JObj [(''success'', JBool False), (''error'', JStr ''Internal server error'')], 500),
      token_cache_init, [token_payload cfg0]) \<and>
   get_token lib0 cfg0
     \<lparr>stdout_ok = True, now_check = 63929347200000000, now_remaining = 63929347200000000,
      now_fetched = 63929347200000000,
      post = Inr \<lparr>status_code = 200, resp_text = ''<html>'',
                  resp_json = Inl JSONDecodeError\<rparr>\<rparr>
     \<lparr>token = JStr ''old'', expires_at = Some 63929347300000000\<rparr> =
     (Inr (JObj [(''success'', JBool False), (''error'', JStr ''Internal server error'')], 500),
      \<lparr>token = JStr ''old'', expires_at = Some 63929347300000000\<rparr>, [token_payload cfg0])"
proof -
  have a: "snd (snd (get_token lib0 cfg0
     \<lparr>stdout_ok = True, now_check = 63929347200000000, now_remaining = 63929347200000000,
      now_fetched = 63929347210000000, post = Inl RequestException\<rparr>
     token_cache_init)) \<noteq> []"
    by (simp add: get_token_sent_iff debug_print_def cache_valid_def token_cache_init_def)
  have b: "snd (snd (get_token lib0 cfg0
     \<lparr>stdout_ok = True, now_check = 63929347200000000, now_remaining = 63929347200000000,
      now_fetched = 63929347200000000,
      post = Inr \<lparr>status_code = 200, resp_text = ''<html>'',
                  resp_json = Inl JSONDecodeError\<rparr>\<rparr>
     \<lparr>token = JStr ''old'', expires_at = Some 63929347300000000\<rparr>)) \<noteq> []"
    by (simp add: get_token_sent_iff debug_print_def cache_valid_def datetime_sub_def
        new_datetime_def datetime_max_def timedelta_minutes_def)
  from get_token_transport_failure [OF _ a, of RequestException]
    get_token_transport_failure [OF _ b, of JSONDecodeError]
  show ?thesis by simp
qed

text \<open>
  C10. When \<^verbatim>\<open>get_token\<close> has sent its request and the provider answers 200 with a body
  that parses but is not an object holding \<^verbatim>\<open>access_token\<close>, the subscript raises before
  anything is stored: the cache is left as it was and the answer is the generic 500.
\<close>

theorem get_token_missing_access_token:
  assumes "post e = Inr r" and "status_code r = 200" and "resp_json r = Inr d"
    and "\<And>kvs. d = JObj kvs \<Longrightarrow> map_of kvs ''access_token'' = None"
    and "snd (snd (get_token lib cfg e c)) \<noteq> []"
  shows "get_token lib cfg e c =
     (Inr (JObj [(''success'', JBool False), (''error'', JStr ''Internal server error'')], 500),
      c, [token_payload cfg])"
proof -
  have cv: "cache_valid e c = Inr None \<and> debug_print cfg e = Inr ()"
    using assms(5) by (simp add: get_token_sent_iff)
  have "\<exists>x. getitem d ''access_token'' = Inl x"
    using assms(4) by (cases d) simp_all
  then obtain x where "getitem d ''access_token'' = Inl x" ..
  then show ?thesis
    using assms(1-3) cv by (simp add: get_token_def get_token_try_def)
qed

text \<open>The theorem at a 200 whose body is an error object, on the first call of the process.\<close>

theorem get_token_missing_access_token_witness:
  "get_token lib0 cfg0
     \<lparr>stdout_ok = True, now_check = 63929347200000000, now_remaining = 63929347200000000,
      now_fetched = 63929347200000000,
      post = Inr \<lparr>status_code = 200, resp_text = ''{\"error\": \"invalid_grant\"}'',
                  resp_json = Inr (JObj [(''error'', JStr ''invalid_grant'')])\<rparr>\<rparr>
     token_cache_init =
     (Inr (JObj [(''success'', JBool False), (''error'', JStr ''Internal server error'')], 500),
      token_cache_init, [token_payload cfg0])"
proof -
  have sent: "snd (snd (get_token lib0 cfg0
     \<lparr>stdout_ok = True, now_check = 63929347200000000, now_remaining = 63929347200000000,
      now_fetched = 63929347200000000,
      post = Inr \<lparr>status_code = 200, resp_text = ''{\"error\": \"invalid_grant\"}'',
                  resp_json = Inr (JObj [(''error'', JStr ''invalid_grant'')])\<rparr>\<rparr>
     token_cache_init)) \<noteq> []"
    by (simp add: get_token_sent_iff debug_print_def cache_valid_def token_cache_init_def)
  show ?thesis
    by (rule get_token_missing_access_token [OF _ _ _ _ sent,
          of _ "JObj [(''error'', JStr ''invalid_grant'')]"]) auto
qed

subsection \<open>Requests per invocation\<close>

text \<open>
  C7, as amended. An invocation of \<^verbatim>\<open>get_token\<close> sends at most one request. Provided
  that \<^verbatim>\<open>sys.stdout\<close> accepts the diagnostic line when diagnostics are on, it sends exactly
  one when the cache is absent (no token or no expiry, as before the first fetch), and when
  it is stale with an expiry \<open>t\<close> from which five minutes can be subtracted
  (\<open>t - 5 min \<le> now\<close>). It sends none when the cached token is one that Python treats as true
  and \<open>now < t - 5 min\<close>.
\<close>

theorem get_token_requests:
  "length (snd (snd (get_token lib cfg e c))) \<le> 1 \<and>
   ((token c = JNull \<or> expires_at c = None) \<and> (DEBUG_MODE cfg \<longrightarrow> stdout_ok e) \<longrightarrow>
      snd (snd (get_token lib cfg e c)) = [token_payload cfg]) \<and>
   (\<forall>t. expires_at c = Some t \<and> is_datetime t \<and> 300000000 \<le> t \<and>
        t - 300000000 \<le> now_check e \<and> (DEBUG_MODE cfg \<longrightarrow> stdout_ok e) \<longrightarrow>
      snd (snd (get_token lib cfg e c)) = [token_payload cfg]) \<and>
   (\<forall>t. py_bool (token c) \<and> expires_at c = Some t \<and> now_check e < t - 300000000 \<longrightarrow>
      snd (snd (get_token lib cfg e c)) = [])"
proof -
  have sent: "snd (snd (get_token lib cfg e c)) =
      (if cache_valid e c = Inr None \<and> debug_print cfg e = Inr ()
       then [token_payload cfg] else [])"
    by (simp add: get_token_sent get_token_try_sent)
  have one: "length (snd (snd (get_token lib cfg e c))) \<le> 1"
    by (simp add: sent)
  have absent: "snd (snd (get_token lib cfg e c)) = [token_payload cfg]"
    if "(token c = JNull \<or> expires_at c = None) \<and> (DEBUG_MODE cfg \<longrightarrow> stdout_ok e)"
  proof -
    have "cache_valid e c = Inr None"
      using that by (intro cache_valid_miss) auto
    moreover have "debug_print cfg e = Inr ()"
      using that by (intro debug_print_ok) simp
    ultimately show ?thesis by (simp add: sent)
  qed
  have stale: "snd (snd (get_token lib cfg e c)) = [token_payload cfg]"
    if "expires_at c = Some t \<and> is_datetime t \<and> 300000000 \<le> t \<and>
        t - 300000000 \<le> now_check e \<and> (DEBUG_MODE cfg \<longrightarrow> stdout_ok e)" for t
  proof -
    have "cache_valid e c = Inr None"
      using that by (intro cache_valid_miss) (auto simp: is_datetime_def)
    moreover have "debug_print cfg e = Inr ()"
      using that by (intro debug_print_ok) simp
    ultimately show ?thesis by (simp add: sent)
  qed
  have valid: "snd (snd (get_token lib cfg e c)) = []"
    if "py_bool (token c) \<and> expires_at c = Some t \<and> now_check e < t - 300000000" for t
  proof -
    have "cache_valid e c \<noteq> Inr None"
      using that
      by (simp add: cache_valid_def datetime_sub_def new_datetime_def timedelta_minutes_def)
    then show ?thesis by (simp add: sent)
  qed
  from one absent stale valid show ?thesis by blast
qed

text \<open>
  The theorem at the three calls of the scenario: the first call of the process (here with
  diagnostics on), a call 1100 seconds after a fetch for 1200 seconds (inside the margin),
  and a call 100 seconds after it.
\<close>

theorem get_token_requests_witness:
  "snd (snd (get_token lib0 cfg_debug
     \<lparr>stdout_ok = True, now_check = 63929347200000000, now_remaining = 63929347200000000,
      now_fetched = 63929347200000000, post = Inl RequestException\<rparr>
     token_cache_init)) = [token_payload cfg_debug] \<and>
   snd (snd (get_token lib0 cfg0
     \<lparr>stdout_ok = True, now_check = 63929348300000000, now_remaining = 63929348300000000,
      now_fetched = 63929348300000000, post = Inl RequestException\<rparr>
     \<lparr>token = JStr ''abc123'', expires_at = Some 63929348400000000\<rparr>)) = [token_payload cfg0] \<and>
   snd (snd (get_token lib0 cfg0
     \<lparr>stdout_ok = True, now_check = 63929347300000000, now_remaining = 63929347300000000,
      now_fetched = 63929347300000000, post = Inl RequestException\<rparr>
     \<lparr>token = JStr ''abc123'', expires_at = Some 63929348400000000\<rparr>)) = []"
  using get_token_requests [of lib0 cfg_debug
      "\<lparr>stdout_ok = True, now_check = 63929347200000000, now_remaining = 63929347200000000,
        now_fetched = 63929347200000000, post = Inl RequestException\<rparr>"
      token_cache_init]
    get_token_requests [of lib0 cfg0
      "\<lparr>stdout_ok = True, now_check = 63929348300000000, now_remaining = 63929348300000000,
        now_fetched = 63929348300000000, post = Inl RequestException\<rparr>"
      "\<lparr>token = JStr ''abc123'', expires_at = Some 63929348400000000\<rparr>"]
    get_token_requests [of lib0 cfg0
      "\<lparr>stdout_ok = True, now_check = 63929347300000000, now_remaining = 63929347300000000,
        now_fetched = 63929347300000000, post = Inl RequestException\<rparr>"
      "\<lparr>token = JStr ''abc123'', expires_at = Some 63929348400000000\<rparr>"]
  by (simp add: token_cache_init_def is_datetime_def datetime_max_def)

text \<open>
  C7 as stated fails in both directions. A request is sent although the cache is valid by
  its expiry, when the cached token is the empty string (the last run below). And no
  request is sent although the cache is absent or stale, in two ways. With diagnostics on and
  a \<^verbatim>\<open>sys.stdout\<close> that cannot encode the emoji, the \<^verbatim>\<open>print\<close> of line 98 raises before
  \<^verbatim>\<open>requests.post\<close> on the first call of the process, and the \<^verbatim>\<open>print\<close> of the handler
  raises again, so that the exception leaves \<^verbatim>\<open>get_token\<close> (the first run). And when the
  expiry lies in the first five minutes of year 1, here at 0001-01-01T00:02:00,
  \<^verbatim>\<open>expires_at - timedelta(minutes=5)\<close> raises \<^verbatim>\<open>OverflowError\<close> and the answer is the
  generic 500 (the third run); such an expiry is stored by a fetch whose \<^verbatim>\<open>expires_in\<close>
  is \<open>-63929347080\<close> (the second run).
\<close>

theorem get_token_requests_counterexample:
  "get_token lib0 cfg_debug
     \<lparr>stdout_ok = False, now_check = 63929347200000000, now_remaining = 63929347200000000,
      now_fetched = 63929347200000000,
      post = Inr \<lparr>status_code = 200, resp_text = ''{\"access_token\": \"new\"}'',
                  resp_json = Inr (JObj [(''access_token'', JStr ''new'')])\<rparr>\<rparr>
     token_cache_init = (Inl UnicodeEncodeError, token_cache_init, []) \<and>
   fst (snd (get_token lib0 cfg0
     \<lparr>stdout_ok = True, now_check = 63929347200000000, now_remaining = 63929347200000000,
      now_fetched = 63929347200000000,
      post = Inr \<lparr>status_code = 200,
                  resp_text = ''{\"access_token\": \"abc\", \"expires_in\": -63929347080}'',
                  resp_json = Inr (JObj [(''access_token'', JStr ''abc''),
                                         (''expires_in'', JInt (- 63929347080))])\<rparr>\<rparr>
     token_cache_init)) = \<lparr>token = JStr ''abc'', expires_at = Some 120000000\<rparr> \<and>
   (120000000 :: int) - 300000000 \<le> 63929347200000000 \<and>
   get_token lib0 cfg0
     \<lparr>stdout_ok = True, now_check = 63929347200000000, now_remaining = 63929347200000000,
      now_fetched = 63929347200000000,
      post = Inr \<lparr>status_code = 200, resp_text = ''{\"access_token\": \"new\"}'',
                  resp_json = Inr (JObj [(''access_token'', JStr ''new'')])\<rparr>\<rparr>
     \<lparr>token = JStr ''abc'', expires_at = Some 120000000\<rparr> =
     (Inr (JObj [(''success'', JBool False), (''error'', JStr ''Internal server error'')], 500),
      \<lparr>token = JStr ''abc'', expires_at = Some 120000000\<rparr>, []) \<and>
   (63929347200000000 :: int) < 63929350800000000 - 300000000 \<and>
   snd (snd (get_token lib0 cfg0
     \<lparr>stdout_ok = True, now_check = 63929347200000000, now_remaining = 63929347200000000,
      now_fetched = 63929347200000000,
      post = Inr \<lparr>status_code = 200, resp_text = ''{\"access_token\": \"new\"}'',
                  resp_json = Inr (JObj [(''access_token'', JStr ''new'')])\<rparr>\<rparr>
     \<lparr>token = JStr '''', expires_at = Some 63929350800000000\<rparr>)) = [token_payload cfg0]"
  by (simp add: get_token_def get_token_try_def debug_print_def cfg_debug_def
      cache_valid_def token_cache_init_def
      new_timedelta_def timedelta_max_days_def datetime_add_def datetime_sub_def
      new_datetime_def datetime_max_def timedelta_minutes_def)

subsection \<open>Token and expiry in the cache\<close>

text \<open>
  C9 says that in every reachable state the token is \<^verbatim>\<open>None\<close> exactly when the expiry is
  \<^verbatim>\<open>None\<close>, no operation setting one without the other. The code does not keep this:
  line 121 stores the token before line 123 builds the expiry, and line 123 can raise. On
  the first call of the process the provider answers 200 with
  \<^verbatim>\<open>{"access_token": "abc", "expires_in": 9223372036854775807}\<close>: the \<^verbatim>\<open>timedelta\<close>
  overflows, the caller gets the generic 500, and the cache is left with a token and no
  expiry.
\<close>

theorem get_token_partial_update:
  "get_token lib cfg
     \<lparr>stdout_ok = True, now_check = 63929347200000000, now_remaining = 63929347200000000,
      now_fetched = 63929347200000000,
      post = Inr \<lparr>status_code = 200,
                  resp_text = ''{\"access_token\": \"abc\", \"expires_in\": 9223372036854775807}'',
                  resp_json = Inr (JObj [(''access_token'', JStr ''abc''),
                                         (''expires_in'', JInt 9223372036854775807)])\<rparr>\<rparr>
     token_cache_init =
     (Inr (JObj [(''success'', JBool False), (''error'', JStr ''Internal server error'')], 500),
      \<lparr>token = JStr ''abc'', expires_at = None\<rparr>,
      [token_payload cfg])"
  by (simp add: get_token_def get_token_try_def debug_print_def cache_valid_def token_cache_init_def
      new_timedelta_def timedelta_max_days_def)

text \<open>
  The same answer met by a valid-looking older entry leaves the new token under the old
  expiry: the failed refresh has changed the cache.
\<close>

lemma get_token_stale_partial_update:
  "get_token lib cfg
     \<lparr>stdout_ok = True, now_check = 63929348300000000, now_remaining = 63929348300000000,
      now_fetched = 63929348300000000,
      post = Inr \<lparr>status_code = 200,
                  resp_text = ''{\"access_token\": \"abc\", \"expires_in\": 9223372036854775807}'',
                  resp_json = Inr (JObj [(''access_token'', JStr ''abc''),
                                         (''expires_in'', JInt 9223372036854775807)])\<rparr>\<rparr>
     \<lparr>token = JStr ''old'', expires_at = Some 63929348400000000\<rparr> =
     (Inr (JObj [(''success'', JBool False), (''error'', JStr ''Internal server error'')], 500),
      \<lparr>token = JStr ''abc'', expires_at = Some 63929348400000000\<rparr>,
      [token_payload cfg])"
  by (simp add: get_token_def get_token_try_def debug_print_def cache_valid_def
      new_timedelta_def timedelta_max_days_def datetime_sub_def new_datetime_def
      datetime_max_def timedelta_minutes_def)

text \<open>
  What does hold: an invocation that changes the expiry is a successful fetch, and it has
  stored the token of its answer with it.
\<close>

lemma get_token_expiry_changed:
  assumes "get_token lib cfg e c = (rep, c', sent)" and "expires_at c' \<noteq> expires_at c"
  shows "\<exists>tok n t. rep = Inr (JObj [(''success'', JBool True), (''access_token'', tok),
                                 (''expires_in'', n), (''cached'', JBool False)], 200) \<and>
           token c' = tok \<and> expires_at c' = Some t"
  using assms
  by (auto simp: get_token_def get_token_try_def Let_def
      split: sum.splits option.splits if_splits)

subsection \<open>The health check\<close>

text \<open>
  \<^verbatim>\<open>health_check\<close> reads the two fields of the cache separately: it never changes the
  cache, always answers 200, reports \<^verbatim>\<open>token_cached\<close> by the token alone and the timestamp
  by the expiry alone.
\<close>

lemma health_check_pure: "snd (health_check lib c) = c"
  by (simp add: health_check_def)

lemma health_check_status: "snd (fst (health_check lib c)) = 200"
  by (simp add: health_check_def)

lemma health_check_fields:
  "fst (fst (health_check lib c)) =
     JObj [(''status'', JStr ''healthy''),
           (''token_cached'', JBool (token c \<noteq> JNull)),
           (''token_expires_at'',
              (case expires_at c of None \<Rightarrow> JNull | Some t \<Rightarrow> JStr (isoformat lib t)))]"
  by (simp add: health_check_def)

text \<open>
  C8 says that \<^verbatim>\<open>health_check\<close> never changes the cache, never fails, and reports
  \<^verbatim>\<open>token_cached: true\<close> exactly when a token is cached, with the expiry of that token
  as a timestamp then and \<^verbatim>\<open>null\<close> otherwise. The last part does not hold of the code,
  through the defect shown for C9: once the first call of the process has met the
  provider's 200 with \<^verbatim>\<open>{"access_token": "abc", "expires_in": 9223372036854775807}\<close>,
  \<^verbatim>\<open>health_check\<close> reports \<^verbatim>\<open>token_cached: true\<close> together with
  \<^verbatim>\<open>token_expires_at: null\<close>.
\<close>

theorem health_check_after_partial_update:
  "health_check lib (fst (snd (get_token lib cfg
     \<lparr>stdout_ok = True, now_check = 63929347200000000, now_remaining = 63929347200000000,
      now_fetched = 63929347200000000,
      post = Inr \<lparr>status_code = 200,
                  resp_text = ''{\"access_token\": \"abc\", \"expires_in\": 9223372036854775807}'',
                  resp_json = Inr (JObj [(''access_token'', JStr ''abc''),
                                         (''expires_in'', JInt 9223372036854775807)])\<rparr>\<rparr>
     token_cache_init))) =
     ((JObj [(''status'', JStr ''healthy''),
             (''token_cached'', JBool True),
             (''token_expires_at'', JNull)], 200),
      \<lparr>token = JStr ''abc'', expires_at = None\<rparr>)"
  by (simp add: health_check_def get_token_def get_token_try_def debug_print_def cache_valid_def
      token_cache_init_def new_timedelta_def timedelta_max_days_def)

end
